theory Spec2Isabelle
  imports Main "HOL-Library.Word"
begin

section \<open>Python values handled by CampScouter.py\<close>

text \<open>
  The program reads three JSON payloads and one binary body. A parsed payload
  (\<open>response.json()\<close>) is a Python value built from \<open>None\<close>, booleans, integers,
  floats, strings, lists and dictionaries. The program never computes with a float: it
  stores it, compares it with \<open>None\<close> and formats it, so a float is kept as its IEEE-754
  binary64 bit pattern. A dictionary is an association list read with \<open>map_of\<close>.
\<close>

type_synonym bytes = "8 word list"

datatype json =
    JNull
  | JBool bool
  | JInt int
  | JFloat "64 word"
  | JStr string
  | JArr "json list"
  | JObj "(string \<times> json) list"

text \<open>The exceptions that can leave the program.\<close>

datatype error =
    KeyError
  | IndexError
  | TypeError
  | AttributeError
  | ValueError
  | OSError
  | RequestException
  | JSONDecodeError
  | UnidentifiedImageError

text \<open>
  Subscription \<open>v[k]\<close>. A string key on a dictionary raises \<open>KeyError\<close> when the
  key is absent; on a list, a string or a scalar it raises \<open>TypeError\<close>. An integer
  index on a list or a string raises \<open>IndexError\<close> out of range; a dictionary parsed
  from JSON has string keys only, so an integer key raises \<open>KeyError\<close>.
\<close>

datatype key = K string | I nat

fun getitem :: "json \<Rightarrow> key \<Rightarrow> error + json" where
  "getitem (JObj kvs) (K k) = (case map_of kvs k of Some v \<Rightarrow> Inr v | None \<Rightarrow> Inl KeyError)"
| "getitem (JObj kvs) (I i) = Inl KeyError"
| "getitem (JArr xs) (I i) = (if i < length xs then Inr (xs ! i) else Inl IndexError)"
| "getitem (JStr s) (I i) = (if i < length s then Inr (JStr [s ! i]) else Inl IndexError)"
| "getitem _ _ = Inl TypeError"

text \<open>A chain of subscriptions \<open>v[k1][k2]...\<close>, left to right, stopping at the first raise.\<close>

fun getpath :: "json \<Rightarrow> key list \<Rightarrow> error + json" where
  "getpath v [] = Inr v"
| "getpath v (k # ks) = (case getitem v k of Inl e \<Rightarrow> Inl e | Inr w \<Rightarrow> getpath w ks)"

text \<open>\<open>d.get(k, default)\<close>: only a dictionary has the method.\<close>

fun dict_get :: "json \<Rightarrow> string \<Rightarrow> json \<Rightarrow> error + json" where
  "dict_get (JObj kvs) k d = Inr (case map_of kvs k of Some v \<Rightarrow> v | None \<Rightarrow> d)"
| "dict_get _ k d = Inl AttributeError"

text \<open>
  What a \<open>for\<close> loop iterates over: the items of a list, the keys of a dictionary, the
  characters of a string; any other value is not iterable.
\<close>

fun iter :: "json \<Rightarrow> error + json list" where
  "iter (JArr xs) = Inr xs"
| "iter (JObj kvs) = Inr (map (\<lambda>kv. JStr (fst kv)) kvs)"
| "iter (JStr s) = Inr (map (\<lambda>c. JStr [c]) s)"
| "iter _ = Inl TypeError"

text \<open>\<open>xs.index(x)\<close>: the first position of \<open>x\<close>, \<open>ValueError\<close> (here \<open>None\<close>) when absent.\<close>

fun index_of :: "'a list \<Rightarrow> 'a \<Rightarrow> nat option" where
  "index_of [] x = None"
| "index_of (y # ys) x =
     (if y = x then Some 0 else (case index_of ys x of None \<Rightarrow> None | Some i \<Rightarrow> Some (Suc i)))"

text \<open>\<open>str\<close> of a Python integer, as an f-string formats the zoom level.\<close>

fun digits :: "nat \<Rightarrow> string" where
  "digits n = (if n < 10 then [''0123456789'' ! n] else digits (n div 10) @ [''0123456789'' ! (n mod 10)])"

declare digits.simps [simp del]

definition str_int :: "int \<Rightarrow> string" where
  "str_int i = (if i < 0 then ''-'' @ digits (nat (- i)) else digits (nat i))"


section \<open>The outside world\<close>

text \<open>
  \<open>requests.get(url, params)\<close> sends a request and gives back a response, or raises.
  A response carries its HTTP status, its body, and what \<open>response.json()\<close> returns
  (the parsed body, or the decoding error).

  The file system answers twice in \<open>with open(name, 'wb') as file: file.write(data)\<close>:
  \<open>open\<close> creates or truncates the file or raises an \<open>OSError\<close> (an empty name, a
  missing directory, no permission), and writing and closing stores the data or raises.
\<close>

record request =
  req_url :: string
  req_params :: "(string \<times> json) list"

record response =
  status_code :: int
  content :: bytes
  json_body :: "error + json"

text \<open>
  What one run of the script does to the outside, in order: the requests it sends, the
  file it writes, the lines it prints and the Streamlit elements it puts on the page.
  \<open>'img\<close> is the type of a decoded image (the result of \<open>Image.open\<close>).
\<close>

datatype 'img event =
    HttpGet request
  | FileOpen string
  | FileWrite string bytes
  | Print string
  | Title string
  | TextInput string string
  | NumberInput string int int int int
  | SelectBox string "string list"
  | Write string
  | ErrorMsg string
  | ShowImage 'img string

text \<open>A computation: the events it caused, and its result or the exception it raised.\<close>

type_synonym ('img, 'a) io = "'img event list \<times> (error + 'a)"

definition emit :: "'img event list \<Rightarrow> ('img, 'a) io \<Rightarrow> ('img, 'a) io" where
  "emit es r = (es @ fst r, snd r)"


section \<open>The four functions\<close>

text \<open>
  Every function takes the things Python supplies: \<open>pystr\<close>, the built-in \<open>str\<close>
  on parsed JSON values (what an f-string applies to \<open>{lat}\<close>), and \<open>get\<close>, the
  answer of \<open>requests.get\<close> to each request. \<open>download_satellite_image\<close> also takes
  \<open>open_wb\<close>, the outcome of \<open>open(name, 'wb')\<close>, and \<open>file_write\<close>, the outcome of
  writing the data and closing the file.
\<close>

definition download_satellite_image ::
  "(json \<Rightarrow> string) \<Rightarrow> (request \<Rightarrow> error + response) \<Rightarrow>
   (string \<Rightarrow> error + unit) \<Rightarrow> (string \<Rightarrow> bytes \<Rightarrow> error + unit) \<Rightarrow>
   string \<Rightarrow> json \<Rightarrow> json \<Rightarrow> int \<Rightarrow> string \<Rightarrow> ('img, unit) io" where
  "download_satellite_image pystr get open_wb file_write api_key lat lon zoom img_file_name =
     (let url = ''https://maps.googleapis.com/maps/api/staticmap?center='' @ pystr lat @ '','' @ pystr lon
                @ ''&zoom='' @ str_int zoom @ ''&size=600x600&maptype=satellite&key='' @ api_key;
          req = \<lparr>req_url = url, req_params = []\<rparr>
      in case get req of
           Inl e \<Rightarrow> ([HttpGet req], Inl e)
         | Inr response \<Rightarrow>
             if status_code response = 200
             then (case open_wb img_file_name of
                     Inl e \<Rightarrow> ([HttpGet req], Inl e)
                   | Inr opened \<Rightarrow>
                       (case file_write img_file_name (content response) of
                          Inl e \<Rightarrow> ([HttpGet req, FileOpen img_file_name], Inl e)
                        | Inr written \<Rightarrow>
                            ([HttpGet req, FileOpen img_file_name,
                              FileWrite img_file_name (content response),
                              Print (''Image successfully downloaded: '' @ img_file_name)], Inr ())))
             else ([HttpGet req,
                    Print ''Failed to download the image. Check your API key and quota.''], Inr ()))"

record place =
  place_name :: json
  place_latitude :: json
  place_longitude :: json
  place_zoom :: int

text \<open>The dictionary literal of the loop body; its entries are evaluated in order.\<close>

definition make_place :: "json \<Rightarrow> error + place" where
  "make_place result =
     (case getpath result [K ''name''] of
        Inl e \<Rightarrow> Inl e
      | Inr n \<Rightarrow>
          (case getpath result [K ''geometry'', K ''location'', K ''lat''] of
             Inl e \<Rightarrow> Inl e
           | Inr la \<Rightarrow>
               (case getpath result [K ''geometry'', K ''location'', K ''lng''] of
                  Inl e \<Rightarrow> Inl e
                | Inr lo \<Rightarrow>
                    Inr \<lparr>place_name = n, place_latitude = la, place_longitude = lo, place_zoom = 12\<rparr>)))"

text \<open>The loop \<open>for result in results: ... places.append(place)\<close>.\<close>

fun places_loop :: "json list \<Rightarrow> place list \<Rightarrow> error + place list" where
  "places_loop [] places = Inr places"
| "places_loop (result # rest) places =
     (case make_place result of
        Inl e \<Rightarrow> Inl e
      | Inr p \<Rightarrow> places_loop rest (places @ [p]))"

definition find_places ::
  "(request \<Rightarrow> error + response) \<Rightarrow> string \<Rightarrow> string \<Rightarrow> string \<Rightarrow> int \<Rightarrow> ('img, place list) io" where
  "find_places get api_key query location radius =
     (let req = \<lparr>req_url = ''https://maps.googleapis.com/maps/api/place/textsearch/json'',
                 req_params = [(''query'', JStr query), (''location'', JStr location),
                               (''radius'', JInt radius), (''key'', JStr api_key)]\<rparr>
      in ([HttpGet req],
          (case get req of
             Inl e \<Rightarrow> Inl e
           | Inr response \<Rightarrow>
               (case json_body response of
                  Inl e \<Rightarrow> Inl e
                | Inr body \<Rightarrow>
                    (case dict_get body ''results'' (JArr []) of
                       Inl e \<Rightarrow> Inl e
                     | Inr results \<Rightarrow>
                         (case iter results of
                            Inl e \<Rightarrow> Inl e
                          | Inr rs \<Rightarrow> places_loop rs []))))))"

definition get_lat_long ::
  "(json \<Rightarrow> string) \<Rightarrow> (request \<Rightarrow> error + response) \<Rightarrow> string \<Rightarrow> string \<Rightarrow> ('img, json \<times> json) io" where
  "get_lat_long pystr get api_key address =
     (let req = \<lparr>req_url = ''https://maps.googleapis.com/maps/api/geocode/json'',
                 req_params = [(''address'', JStr address), (''key'', JStr api_key)]\<rparr>
      in case get req of
           Inl e \<Rightarrow> ([HttpGet req], Inl e)
         | Inr response \<Rightarrow>
             (case json_body response of
                Inl e \<Rightarrow> ([HttpGet req], Inl e)
              | Inr result \<Rightarrow>
                  (case getitem result (K ''status'') of
                     Inl e \<Rightarrow> ([HttpGet req], Inl e)
                   | Inr status \<Rightarrow>
                       if status = JStr ''OK''
                       then (case getpath result [K ''results'', I 0, K ''geometry'', K ''location'', K ''lat''] of
                               Inl e \<Rightarrow> ([HttpGet req], Inl e)
                             | Inr latitude \<Rightarrow>
                                 (case getpath result [K ''results'', I 0, K ''geometry'', K ''location'', K ''lng''] of
                                    Inl e \<Rightarrow> ([HttpGet req], Inl e)
                                  | Inr longitude \<Rightarrow> ([HttpGet req], Inr (latitude, longitude))))
                       else ([HttpGet req, Print (''Error finding location: '' @ pystr status)],
                             Inr (JNull, JNull)))))"

definition download_image_as_bytes ::
  "(json \<Rightarrow> string) \<Rightarrow> (request \<Rightarrow> error + response) \<Rightarrow>
   string \<Rightarrow> json \<Rightarrow> json \<Rightarrow> int \<Rightarrow> ('img, bytes option) io" where
  "download_image_as_bytes pystr get api_key lat lon zoom =
     (let url = ''https://maps.googleapis.com/maps/api/staticmap?center='' @ pystr lat @ '','' @ pystr lon
                @ ''&zoom='' @ str_int zoom @ ''&size=600x600&maptype=satellite&key='' @ api_key;
          req = \<lparr>req_url = url, req_params = []\<rparr>
      in case get req of
           Inl e \<Rightarrow> ([HttpGet req], Inl e)
         | Inr response \<Rightarrow>
             if status_code response = 200
             then ([HttpGet req], Inr (Some (content response)))
             else ([HttpGet req], Inr None))"


section \<open>The Streamlit script\<close>

text \<open>
  One run of the script reads the current value of every widget. The values are the
  input of the run: the two text fields, the zoom level (an integer, since the bounds
  given to \<open>st.number_input\<close> are integers), the query field, and the answer of
  \<open>st.selectbox\<close> to the list of labels it is given (\<open>None\<close> for Python's \<open>None\<close>).
\<close>

record ui =
  ui_api_key :: string
  ui_address :: string
  ui_zoom :: int
  ui_query :: string
  ui_selectbox :: "string list \<Rightarrow> string option"

text \<open>The label of a place in the selector: \<open>f"{name} ({latitude}, {longitude})"\<close>.\<close>

definition place_option :: "(json \<Rightarrow> string) \<Rightarrow> place \<Rightarrow> string" where
  "place_option pystr p =
     pystr (place_name p) @ '' ('' @ pystr (place_latitude p) @ '', '' @ pystr (place_longitude p) @ '')''"

text \<open>
  Lines 115 to 126, run when \<open>places\<close> is not empty. \<open>image_open\<close> is \<open>Image.open\<close>:
  it decodes the bytes or raises. A \<open>BytesIO\<close> object is always true, so the test
  \<open>if image_bytes\<close> fails exactly on \<open>None\<close>.
\<close>

definition view_places ::
  "(json \<Rightarrow> string) \<Rightarrow> (request \<Rightarrow> error + response) \<Rightarrow> (bytes \<Rightarrow> error + 'img) \<Rightarrow>
   ui \<Rightarrow> place list \<Rightarrow> ('img, unit) io" where
  "view_places pystr get image_open u places =
     (let place_options = map (place_option pystr) places
      in emit [SelectBox ''Select a place to view'' place_options]
           (case ui_selectbox u place_options of
              None \<Rightarrow> ([], Inr ())
            | Some selected_place \<Rightarrow>
                if selected_place \<noteq> []
                then (case index_of place_options selected_place of
                        None \<Rightarrow> ([], Inl ValueError)
                      | Some selected_index \<Rightarrow>
                          (let selected_lat = place_latitude (places ! selected_index);
                               selected_lon = place_longitude (places ! selected_index)
                           in case download_image_as_bytes pystr get (ui_api_key u) selected_lat selected_lon (ui_zoom u) of
                                (es, Inl e) \<Rightarrow> (es, Inl e)
                              | (es, Inr image_bytes) \<Rightarrow>
                                  emit es
                                    (case image_bytes of
                                       Some b \<Rightarrow>
                                         (case image_open b of
                                            Inl e \<Rightarrow> ([], Inl e)
                                          | Inr img \<Rightarrow> ([ShowImage img ''Satellite Image''], Inr ()))
                                     | None \<Rightarrow>
                                         ([ErrorMsg ''Failed to download the image. Check your API key and quota.''],
                                          Inr ()))))
                else ([], Inr ())))"

text \<open>Lines 98 to 132: the whole script.\<close>

definition controller ::
  "(json \<Rightarrow> string) \<Rightarrow> (request \<Rightarrow> error + response) \<Rightarrow> (bytes \<Rightarrow> error + 'img) \<Rightarrow>
   ui \<Rightarrow> ('img, unit) io" where
  "controller pystr get image_open u =
     emit [Title ''CampRecon'',
           TextInput ''Enter your Google API Key'' [],
           TextInput ''Enter an address or location'' [],
           NumberInput ''Zoom Level'' 0 21 12 1]
       (if ui_address u \<noteq> [] \<and> ui_api_key u \<noteq> []
        then (case get_lat_long pystr get (ui_api_key u) (ui_address u) of
                (es, Inl e) \<Rightarrow> (es, Inl e)
              | (es, Inr (latitude, longitude)) \<Rightarrow>
                  emit es
                    (if latitude \<noteq> JNull \<and> longitude \<noteq> JNull
                     then emit [Write (''Latitude: '' @ pystr latitude @ '', Longitude: '' @ pystr longitude),
                                TextInput ''Enter search query for nearby places'' ''camp sites'']
                            (if ui_query u \<noteq> []
                             then (case find_places get (ui_api_key u) (ui_query u)
                                          (pystr latitude @ '','' @ pystr longitude) 5000 of
                                     (es, Inl e) \<Rightarrow> (es, Inl e)
                                   | (es, Inr places) \<Rightarrow>
                                       emit es
                                         (if places \<noteq> []
                                          then view_places pystr get image_open u places
                                          else ([Write ''No places found.''], Inr ())))
                             else ([], Inr ()))
                     else ([Write ''Location not found.''], Inr ())))
        else ([Write ''Please enter a valid API key and address.''], Inr ()))"


section \<open>What a run is observed by\<close>

text \<open>The URLs requested, the files opened for writing and the files written, in order.\<close>

definition requested_urls :: "'img event list \<Rightarrow> string list" where
  "requested_urls es = concat (map (\<lambda>e. case e of HttpGet r \<Rightarrow> [req_url r] | _ \<Rightarrow> []) es)"

definition opened_files :: "'img event list \<Rightarrow> string list" where
  "opened_files es = concat (map (\<lambda>e. case e of FileOpen f \<Rightarrow> [f] | _ \<Rightarrow> []) es)"

definition written_files :: "'img event list \<Rightarrow> (string \<times> bytes) list" where
  "written_files es = concat (map (\<lambda>e. case e of FileWrite f b \<Rightarrow> [(f, b)] | _ \<Rightarrow> []) es)"

text \<open>
  The request of section 4.3 of the specification: the static-map endpoint with the
  centre, the zoom, the fixed size 600x600, the map type satellite and the key.
\<close>

definition static_map_url :: "string \<Rightarrow> string \<Rightarrow> string \<Rightarrow> string \<Rightarrow> string" where
  "static_map_url center_lat center_lon zoom_level api_key =
     ''https://maps.googleapis.com/maps/api/staticmap'' @ ''?center='' @ center_lat @ '','' @ center_lon
     @ ''&zoom='' @ zoom_level @ ''&size=600x600'' @ ''&maptype=satellite'' @ ''&key='' @ api_key"

text \<open>The requests \<open>get_lat_long\<close> and \<open>find_places\<close> send.\<close>

definition geocode_request :: "string \<Rightarrow> string \<Rightarrow> request" where
  "geocode_request api_key address =
     \<lparr>req_url = ''https://maps.googleapis.com/maps/api/geocode/json'',
      req_params = [(''address'', JStr address), (''key'', JStr api_key)]\<rparr>"

definition textsearch_request :: "string \<Rightarrow> string \<Rightarrow> string \<Rightarrow> int \<Rightarrow> request" where
  "textsearch_request api_key query location radius =
     \<lparr>req_url = ''https://maps.googleapis.com/maps/api/place/textsearch/json'',
      req_params = [(''query'', JStr query), (''location'', JStr location),
                    (''radius'', JInt radius), (''key'', JStr api_key)]\<rparr>"

text \<open>
  The request for the image of a place, the position \<open>place_options.index\<close> finds for the
  label of the place at position \<open>j\<close>, and the four widgets every run starts with.
\<close>

definition static_map_request :: "(json \<Rightarrow> string) \<Rightarrow> string \<Rightarrow> place \<Rightarrow> int \<Rightarrow> request" where
  "static_map_request pystr api_key p zoom =
     \<lparr>req_url = static_map_url (pystr (place_latitude p)) (pystr (place_longitude p)) (str_int zoom) api_key,
      req_params = []\<rparr>"

definition first_same_label :: "(json \<Rightarrow> string) \<Rightarrow> place list \<Rightarrow> nat \<Rightarrow> nat" where
  "first_same_label pystr places j =
     (case index_of (map (place_option pystr) places) (place_option pystr (places ! j)) of
        Some i \<Rightarrow> i
      | None \<Rightarrow> j)"

definition header :: "'img event list" where
  "header = [Title ''CampRecon'',
             TextInput ''Enter your Google API Key'' [],
             TextInput ''Enter an address or location'' [],
             NumberInput ''Zoom Level'' 0 21 12 1]"

section \<open>Sample inputs\<close>

text \<open>
  \<open>pystr_sample\<close> is Python's \<open>str\<close> on the values of the samples: the floats
  45.0, -71.0, 45.01 and -71.01 by their bit patterns. \<open>png_1x1\<close> is a complete PNG
  file of one grey pixel, and \<open>image_open_sample\<close> is \<open>Image.open\<close> on the sample
  bodies: it decodes that file to a picture of width 1 and height 1 and raises on any
  other body used here. \<open>world\<close> answers
  the geocoding and the text-search requests with the given payloads and every other
  request with the given status and body.
\<close>

definition pystr_sample :: "json \<Rightarrow> string" where
  "pystr_sample v =
     (case v of
        JStr s \<Rightarrow> s
      | JInt i \<Rightarrow> str_int i
      | JNull \<Rightarrow> ''None''
      | JFloat w \<Rightarrow>
          (if w = 0x4046800000000000 then ''45.0''
           else if w = 0xC051C00000000000 then ''-71.0''
           else if w = 0x40468147AE147AE1 then ''45.01''
           else if w = 0xC051C0A3D70A3D71 then ''-71.01''
           else ''?'')
      | _ \<Rightarrow> ''?'')"

definition geocode_ok :: json where
  "geocode_ok = JObj [(''status'', JStr ''OK''),
     (''results'', JArr [JObj [(''geometry'', JObj [(''location'',
        JObj [(''lat'', JFloat 0x4046800000000000), (''lng'', JFloat 0xC051C00000000000)])])]])]"

definition pine_camp :: json where
  "pine_camp = JObj [(''name'', JStr ''Pine Camp''),
     (''geometry'', JObj [(''location'',
        JObj [(''lat'', JFloat 0x40468147AE147AE1), (''lng'', JFloat 0xC051C0A3D70A3D71)])])]"

definition png_1x1 :: bytes where
  "png_1x1 =
     [137, 80, 78, 71, 13, 10, 26, 10,
      0, 0, 0, 13, 73, 72, 68, 82, 0, 0, 0, 1, 0, 0, 0, 1, 8, 0, 0, 0, 0, 58, 126, 155, 85,
      0, 0, 0, 10, 73, 68, 65, 84, 120, 218, 99, 96, 0, 0, 0, 2, 0, 1, 229, 39, 222, 252,
      0, 0, 0, 0, 73, 69, 78, 68, 174, 66, 96, 130]"

datatype picture = Picture nat nat

definition image_open_sample :: "bytes \<Rightarrow> error + picture" where
  "image_open_sample b = (if b = png_1x1 then Inr (Picture 1 1) else Inl UnidentifiedImageError)"

definition world :: "bytes \<Rightarrow> json \<Rightarrow> json \<Rightarrow> int \<Rightarrow> request \<Rightarrow> error + response" where
  "world body geo found st req =
     (if req_url req = ''https://maps.googleapis.com/maps/api/geocode/json''
      then Inr \<lparr>status_code = 200, content = [], json_body = Inr geo\<rparr>
      else if req_url req = ''https://maps.googleapis.com/maps/api/place/textsearch/json''
      then Inr \<lparr>status_code = 200, content = [], json_body = Inr found\<rparr>
      else Inr \<lparr>status_code = st, content = body, json_body = Inl JSONDecodeError\<rparr>)"

text \<open>
  A file system in which \<open>open\<close> refuses the empty name, as Python does
  (\<open>FileNotFoundError\<close>, an \<open>OSError\<close>), and every write succeeds.
\<close>

definition open_wb_sample :: "string \<Rightarrow> error + unit" where
  "open_wb_sample name = (if name = [] then Inl OSError else Inr ())"

definition file_write_sample :: "string \<Rightarrow> bytes \<Rightarrow> error + unit" where
  "file_write_sample name data = Inr ()"

text \<open>
  A second search result with the same name whose coordinates arrive as JSON strings, the
  two places \<open>find_places\<close> builds from the results, a result with another name, two
  results whose labels are both \<open>Camp (2, 3) (4, 5)\<close> though their coordinates differ,
  the seven bytes \<open>b"PNGDATA"\<close>, which are no image, and a page state whose selector
  answers with the entry at a given position.
\<close>

definition pine_camp_text :: json where
  "pine_camp_text = JObj [(''name'', JStr ''Pine Camp''),
     (''geometry'', JObj [(''location'', JObj [(''lat'', JStr ''45.01''), (''lng'', JStr ''-71.01'')])])]"

definition pine_place :: place where
  "pine_place = \<lparr>place_name = JStr ''Pine Camp'', place_latitude = JFloat 0x40468147AE147AE1,
                  place_longitude = JFloat 0xC051C0A3D70A3D71, place_zoom = 12\<rparr>"

definition pine_place_text :: place where
  "pine_place_text = \<lparr>place_name = JStr ''Pine Camp'', place_latitude = JStr ''45.01'',
                       place_longitude = JStr ''-71.01'', place_zoom = 12\<rparr>"

definition oak_camp :: json where
  "oak_camp = JObj [(''name'', JStr ''Oak Camp''),
     (''geometry'', JObj [(''location'',
        JObj [(''lat'', JFloat 0x4046800000000000), (''lng'', JFloat 0xC051C00000000000)])])]"

definition oak_place :: place where
  "oak_place = \<lparr>place_name = JStr ''Oak Camp'', place_latitude = JFloat 0x4046800000000000,
                 place_longitude = JFloat 0xC051C00000000000, place_zoom = 12\<rparr>"

definition camp_first :: json where
  "camp_first = JObj [(''name'', JStr ''Camp''),
     (''geometry'', JObj [(''location'', JObj [(''lat'', JInt 2), (''lng'', JStr ''3) (4, 5'')])])]"

definition camp_second :: json where
  "camp_second = JObj [(''name'', JStr ''Camp (2, 3)''),
     (''geometry'', JObj [(''location'', JObj [(''lat'', JInt 4), (''lng'', JInt 5)])])]"

definition pngdata :: bytes where
  "pngdata = [80, 78, 71, 68, 65, 84, 65]"

definition sample_ui :: "string \<Rightarrow> string \<Rightarrow> int \<Rightarrow> nat \<Rightarrow> ui" where
  "sample_ui api_key address zoom choice =
     \<lparr>ui_api_key = api_key, ui_address = address, ui_zoom = zoom, ui_query = ''camp sites'',
      ui_selectbox = (\<lambda>opts. if choice < length opts then Some (opts ! choice) else None)\<rparr>"


section \<open>Properties\<close>

subsection \<open>Reading a trace\<close>

lemma requested_urls_simps [simp]:
  "requested_urls [] = []"
  "requested_urls (HttpGet r # es) = req_url r # requested_urls es"
  "requested_urls (FileOpen f # es) = requested_urls es"
  "requested_urls (FileWrite f b # es) = requested_urls es"
  "requested_urls (Print s # es) = requested_urls es"
  "requested_urls (Title s # es) = requested_urls es"
  "requested_urls (TextInput s d # es) = requested_urls es"
  "requested_urls (NumberInput s n1 n2 n3 n4 # es) = requested_urls es"
  "requested_urls (SelectBox s opts # es) = requested_urls es"
  "requested_urls (Write s # es) = requested_urls es"
  "requested_urls (ErrorMsg s # es) = requested_urls es"
  "requested_urls (ShowImage i s # es) = requested_urls es"
  by (simp_all add: requested_urls_def)

lemma requested_urls_append [simp]:
  "requested_urls (es @ fs) = requested_urls es @ requested_urls fs"
  by (simp add: requested_urls_def)

lemma written_files_simps [simp]:
  "written_files [] = []"
  "written_files (HttpGet r # es) = written_files es"
  "written_files (FileOpen f # es) = written_files es"
  "written_files (FileWrite f b # es) = (f, b) # written_files es"
  "written_files (Print s # es) = written_files es"
  by (simp_all add: written_files_def)

lemma opened_files_simps [simp]:
  "opened_files [] = []"
  "opened_files (HttpGet r # es) = opened_files es"
  "opened_files (FileOpen f # es) = f # opened_files es"
  "opened_files (FileWrite f b # es) = opened_files es"
  "opened_files (Print s # es) = opened_files es"
  by (simp_all add: opened_files_def)

lemma fst_emit [simp]: "fst (emit es r) = es @ fst r"
  by (simp add: emit_def)

lemma snd_emit [simp]: "snd (emit es r) = snd r"
  by (simp add: emit_def)

lemma get_lat_long_urls:
  "requested_urls (fst (get_lat_long pystr get api_key address))
     = [''https://maps.googleapis.com/maps/api/geocode/json'']"
  unfolding get_lat_long_def Let_def by (simp split: sum.splits)

lemma find_places_events:
  "fst (find_places get api_key query location radius) = [HttpGet (textsearch_request api_key query location radius)]"
  unfolding find_places_def textsearch_request_def Let_def by simp

lemma download_image_as_bytes_events:
  "fst (download_image_as_bytes pystr get api_key lat lon zoom)
     = [HttpGet \<lparr>req_url = static_map_url (pystr lat) (pystr lon) (str_int zoom) api_key, req_params = []\<rparr>]"
  unfolding download_image_as_bytes_def static_map_url_def Let_def by (simp split: sum.splits)

subsection \<open>The loop of \<open>find_places\<close>\<close>

lemma make_place_zoom: "make_place result = Inr p \<Longrightarrow> place_zoom p = 12"
  by (auto simp: make_place_def split: sum.splits)

lemma places_loop_zoom:
  "places_loop rs acc = Inr ps \<Longrightarrow> \<forall>p \<in> set acc. place_zoom p = 12 \<Longrightarrow> \<forall>p \<in> set ps. place_zoom p = 12"
proof (induction rs arbitrary: acc)
  case Nil
  then show ?case by simp
next
  case (Cons r rs)
  from Cons.prems(1) obtain q where q: "make_place r = Inr q" and rest: "places_loop rs (acc @ [q]) = Inr ps"
    by (auto split: sum.splits)
  have "\<forall>p \<in> set (acc @ [q]). place_zoom p = 12"
    using Cons.prems(2) make_place_zoom [OF q] by simp
  with Cons.IH [OF rest] show ?case by blast
qed

lemma find_places_zoom:
  "snd (find_places get api_key query location radius) = Inr places \<Longrightarrow> \<forall>p \<in> set places. place_zoom p = 12"
  unfolding find_places_def Let_def
  by (auto split: sum.splits dest!: places_loop_zoom)

subsection \<open>\<open>list.index\<close>\<close>

lemma index_of_first:
  "i < length xs \<Longrightarrow> xs ! i = x \<Longrightarrow> \<forall>k<i. xs ! k \<noteq> x \<Longrightarrow> index_of xs x = Some i"
proof (induction xs arbitrary: i)
  case Nil
  then show ?case by simp
next
  case (Cons y ys)
  show ?case
  proof (cases i)
    case 0
    with Cons.prems show ?thesis by simp
  next
    case (Suc n)
    with Cons.prems have "y \<noteq> x" by auto
    moreover have "index_of ys x = Some n"
      using Cons.prems Suc by (intro Cons.IH) auto
    ultimately show ?thesis using Suc by simp
  qed
qed

lemma index_of_member:
  "x \<in> set xs \<Longrightarrow> \<exists>i. index_of xs x = Some i \<and> i < length xs \<and> xs ! i = x \<and> (\<forall>k<i. xs ! k \<noteq> x)"
proof (induction xs)
  case Nil
  then show ?case by simp
next
  case (Cons y ys)
  show ?case
  proof (cases "y = x")
    case True
    then show ?thesis by simp
  next
    case False
    with Cons.prems have "x \<in> set ys" by simp
    from Cons.IH [OF this] obtain i where i: "index_of ys x = Some i" "i < length ys" "ys ! i = x" "\<forall>k<i. ys ! k \<noteq> x"
      by blast
    have "\<forall>k<Suc i. (y # ys) ! k \<noteq> x"
      using False i(4) by (auto simp: nth_Cons split: nat.splits)
    with False i show ?thesis by simp
  qed
qed

lemma index_of_nth:
  assumes "j < length xs"
  obtains i where "index_of xs (xs ! j) = Some i" and "i \<le> j" and "xs ! i = xs ! j"
proof -
  from assms have "xs ! j \<in> set xs" by simp
  from index_of_member [OF this] obtain i where i: "index_of xs (xs ! j) = Some i" "xs ! i = xs ! j"
      "\<forall>k<i. xs ! k \<noteq> xs ! j"
    by blast
  have "i \<le> j"
  proof (rule ccontr)
    assume "\<not> i \<le> j"
    then have "j < i" by simp
    with i(3) show False by blast
  qed
  with i that show ?thesis by blast
qed

subsection \<open>The script past its gates\<close>

lemma place_option_nonempty: "place_option pystr p \<noteq> []"
  by (simp add: place_option_def)

lemma view_places_urls:
  fixes image_open :: "bytes \<Rightarrow> error + 'img"
  assumes "ui_selectbox u (map (place_option pystr) places) = Some (place_option pystr q)"
    and "index_of (map (place_option pystr) places) (place_option pystr q) = Some i"
  shows "requested_urls (fst (view_places pystr get image_open u places))
           = [req_url (static_map_request pystr (ui_api_key u) (places ! i) (ui_zoom u))]"
proof -
  have ev: "fst (download_image_as_bytes pystr get (ui_api_key u) (place_latitude (places ! i))
                   (place_longitude (places ! i)) (ui_zoom u) :: ('img, bytes option) io)
              = [HttpGet (static_map_request pystr (ui_api_key u) (places ! i) (ui_zoom u))]"
    by (simp add: download_image_as_bytes_events static_map_request_def)
  show ?thesis
    unfolding view_places_def Let_def using assms ev
    by (cases "download_image_as_bytes pystr get (ui_api_key u) (place_latitude (places ! i))
                   (place_longitude (places ! i)) (ui_zoom u) :: ('img, bytes option) io")
       (auto simp: place_option_nonempty split: sum.splits option.splits)
qed

lemma view_places_fetched:
  fixes image_open :: "bytes \<Rightarrow> error + 'img"
  assumes "ui_selectbox u (map (place_option pystr) places) = Some (place_option pystr q)"
    and "index_of (map (place_option pystr) places) (place_option pystr q) = Some i"
    and "get (static_map_request pystr (ui_api_key u) (places ! i) (ui_zoom u)) = Inr response"
    and "status_code response = 200"
  shows "view_places pystr get image_open u places
           = (case image_open (content response) of
                Inr img \<Rightarrow>
                  ([SelectBox ''Select a place to view'' (map (place_option pystr) places),
                    HttpGet (static_map_request pystr (ui_api_key u) (places ! i) (ui_zoom u)),
                    ShowImage img ''Satellite Image''], Inr ())
              | Inl e \<Rightarrow>
                  ([SelectBox ''Select a place to view'' (map (place_option pystr) places),
                    HttpGet (static_map_request pystr (ui_api_key u) (places ! i) (ui_zoom u))], Inl e))"
  using assms unfolding view_places_def Let_def download_image_as_bytes_def static_map_request_def static_map_url_def
  by (simp add: place_option_nonempty emit_def split: sum.splits)

lemma first_same_label_index:
  assumes "j < length places"
  shows "index_of (map (place_option pystr) places) (place_option pystr (places ! j))
           = Some (first_same_label pystr places j)"
    and "first_same_label pystr places j \<le> j"
    and "place_option pystr (places ! first_same_label pystr places j) = place_option pystr (places ! j)"
    and "\<forall>k < first_same_label pystr places j. place_option pystr (places ! k) \<noteq> place_option pystr (places ! j)"
proof -
  let ?opts = "map (place_option pystr) places"
  have "place_option pystr (places ! j) \<in> set ?opts"
    using assms by simp
  from index_of_member [OF this] obtain i where i: "index_of ?opts (place_option pystr (places ! j)) = Some i"
      "i < length ?opts" "?opts ! i = place_option pystr (places ! j)"
      "\<forall>k<i. ?opts ! k \<noteq> place_option pystr (places ! j)"
    by blast
  have f: "first_same_label pystr places j = i"
    by (simp add: first_same_label_def i(1))
  have le: "i \<le> j"
  proof (rule ccontr)
    assume "\<not> i \<le> j"
    then have "j < i" by simp
    with i(4) have "?opts ! j \<noteq> place_option pystr (places ! j)" by blast
    with assms show False by simp
  qed
  show "index_of ?opts (place_option pystr (places ! j)) = Some (first_same_label pystr places j)"
    using i(1) f by simp
  show "first_same_label pystr places j \<le> j"
    using le f by simp
  show "place_option pystr (places ! first_same_label pystr places j) = place_option pystr (places ! j)"
    using i(2,3) f by simp
  show "\<forall>k < first_same_label pystr places j. place_option pystr (places ! k) \<noteq> place_option pystr (places ! j)"
    using i(2,4) f by simp
qed

lemma controller_located:
  fixes image_open :: "bytes \<Rightarrow> error + 'img"
  assumes "ui_address u \<noteq> []" and "ui_api_key u \<noteq> []"
    and "snd (get_lat_long pystr get (ui_api_key u) (ui_address u) :: ('img, json \<times> json) io) = Inr (latitude, longitude)"
    and "latitude \<noteq> JNull" and "longitude \<noteq> JNull" and "ui_query u \<noteq> []"
    and "snd (find_places get (ui_api_key u) (ui_query u) (pystr latitude @ '','' @ pystr longitude) 5000
           :: ('img, place list) io) = Inr places"
  shows "controller pystr get image_open u
           = emit (header @ fst (get_lat_long pystr get (ui_api_key u) (ui_address u) :: ('img, json \<times> json) io)
                   @ [Write (''Latitude: '' @ pystr latitude @ '', Longitude: '' @ pystr longitude),
                      TextInput ''Enter search query for nearby places'' ''camp sites'',
                      HttpGet (textsearch_request (ui_api_key u) (ui_query u) (pystr latitude @ '','' @ pystr longitude) 5000)])
               (if places \<noteq> [] then view_places pystr get image_open u places
                else ([Write ''No places found.''], Inr ()))"
proof -
  obtain es where g: "get_lat_long pystr get (ui_api_key u) (ui_address u) = (es :: 'img event list, Inr (latitude, longitude))"
    using assms(3) by (cases "get_lat_long pystr get (ui_api_key u) (ui_address u) :: ('img, json \<times> json) io") simp
  have f: "find_places get (ui_api_key u) (ui_query u) (pystr latitude @ '','' @ pystr longitude) 5000
             = ([HttpGet (textsearch_request (ui_api_key u) (ui_query u) (pystr latitude @ '','' @ pystr longitude) 5000) :: 'img event],
                Inr places)"
    using assms(7) find_places_events [of get "ui_api_key u" "ui_query u" "pystr latitude @ '','' @ pystr longitude" 5000, where ?'a = 'img]
    by (cases "find_places get (ui_api_key u) (ui_query u) (pystr latitude @ '','' @ pystr longitude) 5000 :: ('img, place list) io") simp
  show ?thesis
    unfolding controller_def header_def
    using assms(1,2,4,5,6) g f by (simp add: emit_def)
qed

subsection \<open>The sample run\<close>

lemma sample_geocode:
  "(get_lat_long pystr_sample (world png_1x1 geocode_ok found st) ''k'' ''1 Camp Rd'' :: ('img, json \<times> json) io)
     = ([HttpGet (geocode_request ''k'' ''1 Camp Rd'')], Inr (JFloat 0x4046800000000000, JFloat 0xC051C00000000000))"
  by (simp add: get_lat_long_def world_def geocode_ok_def geocode_request_def)

lemma sample_search_one:
  "(find_places (world png_1x1 geo (JObj [(''results'', JArr [pine_camp])]) st) ''k'' ''camp sites'' ''45.0,-71.0'' 5000
      :: ('img, place list) io)
     = ([HttpGet (textsearch_request ''k'' ''camp sites'' ''45.0,-71.0'' 5000)], Inr [pine_place])"
  by (simp add: find_places_def world_def textsearch_request_def make_place_def pine_camp_def pine_place_def)

lemma sample_search_two:
  "(find_places (world png_1x1 geo (JObj [(''results'', JArr [pine_camp, pine_camp_text])]) st) ''k'' ''camp sites'' ''45.0,-71.0'' 5000
      :: ('img, place list) io)
     = ([HttpGet (textsearch_request ''k'' ''camp sites'' ''45.0,-71.0'' 5000)], Inr [pine_place, pine_place_text])"
  by (simp add: find_places_def world_def textsearch_request_def make_place_def pine_camp_def pine_place_def
        pine_camp_text_def pine_place_text_def)

lemma sample_geocode_body:
  "(get_lat_long pystr_sample (world body geocode_ok found st) ''k'' ''1 Camp Rd'' :: ('img, json \<times> json) io)
     = ([HttpGet (geocode_request ''k'' ''1 Camp Rd'')], Inr (JFloat 0x4046800000000000, JFloat 0xC051C00000000000))"
  by (simp add: get_lat_long_def world_def geocode_ok_def geocode_request_def)

lemma sample_search_body:
  "(find_places (world body geo (JObj [(''results'', JArr [pine_camp])]) st) ''k'' ''camp sites'' ''45.0,-71.0'' 5000
      :: ('img, place list) io)
     = ([HttpGet (textsearch_request ''k'' ''camp sites'' ''45.0,-71.0'' 5000)], Inr [pine_place])"
  by (simp add: find_places_def world_def textsearch_request_def make_place_def pine_camp_def pine_place_def)

lemma sample_search_oak:
  "(find_places (world body geo (JObj [(''results'', JArr [pine_camp, oak_camp])]) st) ''k'' ''camp sites'' ''45.0,-71.0'' 5000
      :: ('img, place list) io)
     = ([HttpGet (textsearch_request ''k'' ''camp sites'' ''45.0,-71.0'' 5000)], Inr [pine_place, oak_place])"
  by (simp add: find_places_def world_def textsearch_request_def make_place_def pine_camp_def pine_place_def
        oak_camp_def oak_place_def)

lemma sample_search_camps:
  "(find_places (world body geo (JObj [(''results'', JArr [camp_first, camp_second])]) st) ''k'' ''camp sites'' ''45.0,-71.0'' 5000
      :: ('img, place list) io)
     = ([HttpGet (textsearch_request ''k'' ''camp sites'' ''45.0,-71.0'' 5000)],
        Inr [\<lparr>place_name = JStr ''Camp'', place_latitude = JInt 2, place_longitude = JStr ''3) (4, 5'', place_zoom = 12\<rparr>,
             \<lparr>place_name = JStr ''Camp (2, 3)'', place_latitude = JInt 4, place_longitude = JInt 5, place_zoom = 12\<rparr>])"
  by (simp add: find_places_def world_def textsearch_request_def make_place_def camp_first_def camp_second_def)

lemma str_int_samples: "str_int 2 = ''2''" "str_int 4 = ''4''" "str_int 5 = ''5''" "str_int 17 = ''17''"
  by code_simp+

lemma str_int_14: "str_int 14 = ''14''"
  by code_simp

subsection \<open>Geocoding\<close>

text \<open>
  C1. When the geocoding payload has status \<open>"OK"\<close>, \<open>get_lat_long\<close> returns exactly the
  pair found at \<open>results[0].geometry.location.lat\<close> and \<open>.lng\<close> of that payload, after
  one request to the geocoding endpoint.
\<close>

theorem get_lat_long_ok:
  assumes "get (geocode_request api_key address) = Inr response"
    and "json_body response = Inr result"
    and "getitem result (K ''status'') = Inr (JStr ''OK'')"
    and "getpath result [K ''results'', I 0, K ''geometry'', K ''location'', K ''lat''] = Inr la"
    and "getpath result [K ''results'', I 0, K ''geometry'', K ''location'', K ''lng''] = Inr lo"
  shows "get_lat_long pystr get api_key address = ([HttpGet (geocode_request api_key address)], Inr (la, lo))"
  using assms unfolding get_lat_long_def geocode_request_def Let_def by simp

theorem get_lat_long_ok_witness:
  "get_lat_long pystr_sample (world png_1x1 geocode_ok (JObj []) 200) ''k'' ''1 Camp Rd''
     = ([HttpGet (geocode_request ''k'' ''1 Camp Rd'')],
        Inr (JFloat 0x4046800000000000, JFloat 0xC051C00000000000))"
  by (rule get_lat_long_ok [where response = "\<lparr>status_code = 200, content = [], json_body = Inr geocode_ok\<rparr>"
        and result = geocode_ok])
     (simp_all add: world_def geocode_request_def geocode_ok_def)

text \<open>
  C3. When the status of the geocoding payload is anything but \<open>"OK"\<close>, \<open>get_lat_long\<close>
  raises nothing and returns \<open>(None, None)\<close>, whatever the status is; the status only
  shows in the printed line.
\<close>

theorem get_lat_long_not_ok:
  assumes "get (geocode_request api_key address) = Inr response"
    and "json_body response = Inr result"
    and "getitem result (K ''status'') = Inr status"
    and "status \<noteq> JStr ''OK''"
  shows "get_lat_long pystr get api_key address
           = ([HttpGet (geocode_request api_key address), Print (''Error finding location: '' @ pystr status)],
              Inr (JNull, JNull))"
  using assms unfolding get_lat_long_def geocode_request_def Let_def by simp

theorem get_lat_long_not_ok_witness:
  "get_lat_long pystr_sample (world png_1x1 (JObj [(''status'', JStr ''ZERO_RESULTS''), (''results'', JArr [])]) (JObj []) 200)
       ''k'' ''nowhere''
     = ([HttpGet (geocode_request ''k'' ''nowhere''), Print ''Error finding location: ZERO_RESULTS''],
        Inr (JNull, JNull))"
  using get_lat_long_not_ok [where get = "world png_1x1 (JObj [(''status'', JStr ''ZERO_RESULTS''), (''results'', JArr [])]) (JObj []) 200"
        and api_key = "''k''" and address = "''nowhere''" and pystr = pystr_sample
        and response = "\<lparr>status_code = 200, content = [],
                           json_body = Inr (JObj [(''status'', JStr ''ZERO_RESULTS''), (''results'', JArr [])])\<rparr>"
        and result = "JObj [(''status'', JStr ''ZERO_RESULTS''), (''results'', JArr [])]"
        and status = "JStr ''ZERO_RESULTS''"]
  by (simp add: world_def geocode_request_def pystr_sample_def)

subsection \<open>Place search\<close>

text \<open>
  C4. Every place that \<open>find_places\<close> returns has zoom 12, whatever the key, the query, the
  location, the radius and the response are; the function has no zoom parameter.
\<close>

theorem find_places_zoom_12:
  fixes es :: "'img event list"
  assumes "find_places get api_key query location radius = (es, Inr places)"
    and "p \<in> set places"
  shows "place_zoom p = 12"
proof -
  from assms(1) have "snd (find_places get api_key query location radius :: ('img, place list) io) = Inr places"
    by simp
  from find_places_zoom [OF this] assms(2) show ?thesis
    by blast
qed

theorem find_places_zoom_12_witness:
  "find_places (world png_1x1 geocode_ok (JObj [(''results'', JArr [pine_camp])]) 200) ''k'' ''camp sites'' ''45.0,-71.0'' 5000
     = ([HttpGet (textsearch_request ''k'' ''camp sites'' ''45.0,-71.0'' 5000) :: unit event],
        Inr [\<lparr>place_name = JStr ''Pine Camp'', place_latitude = JFloat 0x40468147AE147AE1,
              place_longitude = JFloat 0xC051C0A3D70A3D71, place_zoom = 12\<rparr>])
   \<and> place_zoom \<lparr>place_name = JStr ''Pine Camp'', place_latitude = JFloat 0x40468147AE147AE1,
              place_longitude = JFloat 0xC051C0A3D70A3D71, place_zoom = 12\<rparr> = 12"
proof -
  have run: "find_places (world png_1x1 geocode_ok (JObj [(''results'', JArr [pine_camp])]) 200) ''k'' ''camp sites'' ''45.0,-71.0'' 5000
     = ([HttpGet (textsearch_request ''k'' ''camp sites'' ''45.0,-71.0'' 5000) :: unit event],
        Inr [\<lparr>place_name = JStr ''Pine Camp'', place_latitude = JFloat 0x40468147AE147AE1,
              place_longitude = JFloat 0xC051C0A3D70A3D71, place_zoom = 12\<rparr>])"
    by (simp add: find_places_def world_def textsearch_request_def make_place_def pine_camp_def)
  from find_places_zoom_12 [OF run] run show ?thesis by simp
qed

text \<open>
  C9. When the payload of the text search is a dictionary without the key \<open>"results"\<close>,
  \<open>find_places\<close> raises nothing and returns the empty list, the same outcome, events
  included, as for a payload whose \<open>"results"\<close> is the empty array.
\<close>

theorem find_places_no_results_key:
  assumes "get_a (textsearch_request api_key query location radius) = Inr response_a"
    and "json_body response_a = Inr (JObj kvs_a)"
    and "map_of kvs_a ''results'' = None"
    and "get_b (textsearch_request api_key query location radius) = Inr response_b"
    and "json_body response_b = Inr (JObj kvs_b)"
    and "map_of kvs_b ''results'' = Some (JArr [])"
  shows "find_places get_a api_key query location radius
           = ([HttpGet (textsearch_request api_key query location radius)], Inr [])
       \<and> find_places get_a api_key query location radius = find_places get_b api_key query location radius"
  using assms unfolding find_places_def textsearch_request_def Let_def by simp

theorem find_places_no_results_key_witness:
  "find_places (world png_1x1 geocode_ok (JObj [(''status'', JStr ''REQUEST_DENIED'')]) 200) ''k'' ''camp sites'' ''45.0,-71.0'' 5000
     = ([HttpGet (textsearch_request ''k'' ''camp sites'' ''45.0,-71.0'' 5000) :: unit event], Inr [])
   \<and> find_places (world png_1x1 geocode_ok (JObj [(''status'', JStr ''REQUEST_DENIED'')]) 200) ''k'' ''camp sites'' ''45.0,-71.0'' 5000
     = (find_places (world png_1x1 geocode_ok (JObj [(''results'', JArr []), (''status'', JStr ''ZERO_RESULTS'')]) 200)
          ''k'' ''camp sites'' ''45.0,-71.0'' 5000 :: (unit, place list) io)"
  by (rule find_places_no_results_key
        [where response_a = "\<lparr>status_code = 200, content = [], json_body = Inr (JObj [(''status'', JStr ''REQUEST_DENIED'')])\<rparr>"
           and kvs_a = "[(''status'', JStr ''REQUEST_DENIED'')]"
           and kvs_b = "[(''results'', JArr []), (''status'', JStr ''ZERO_RESULTS'')]"
           and response_b = "\<lparr>status_code = 200, content = [],
                              json_body = Inr (JObj [(''results'', JArr []), (''status'', JStr ''ZERO_RESULTS'')])\<rparr>"])
     (simp_all add: world_def textsearch_request_def)

subsection \<open>Imagery\<close>

text \<open>
  C8. For every key, latitude, longitude and zoom, \<open>download_satellite_image\<close> and
  \<open>download_image_as_bytes\<close> send one request each, and to the same URL: the static-map
  endpoint with the given centre, zoom and key, size 600x600 and map type satellite.
\<close>

theorem same_static_map_request:
  "requested_urls (fst (download_satellite_image pystr get open_wb file_write api_key lat lon zoom img_file_name))
     = [static_map_url (pystr lat) (pystr lon) (str_int zoom) api_key]
   \<and> requested_urls (fst (download_image_as_bytes pystr get api_key lat lon zoom))
     = [static_map_url (pystr lat) (pystr lon) (str_int zoom) api_key]
   \<and> hd (fst (download_satellite_image pystr get open_wb file_write api_key lat lon zoom img_file_name))
     = HttpGet \<lparr>req_url = static_map_url (pystr lat) (pystr lon) (str_int zoom) api_key, req_params = []\<rparr>
   \<and> hd (fst (download_image_as_bytes pystr get api_key lat lon zoom))
     = HttpGet \<lparr>req_url = static_map_url (pystr lat) (pystr lon) (str_int zoom) api_key, req_params = []\<rparr>"
  unfolding download_satellite_image_def download_image_as_bytes_def static_map_url_def Let_def
  by (simp split: sum.splits)

text \<open>
  C2 (amended). Given the response to the static-map request,
  \<open>download_image_as_bytes\<close> returns the body exactly when the status is 200 and \<open>None\<close>
  otherwise, and never touches a file. \<open>download_satellite_image\<close> opens the file exactly
  when the status is 200 and \<open>open\<close> succeeds, and has written the body to the given path
  exactly when moreover the write succeeds; the \<open>OSError\<close> of a failed \<open>open\<close> or write
  leaves the function. For any other status it opens and writes no file, prints the
  failure line and returns normally.
\<close>

theorem download_iff_200:
  assumes "get \<lparr>req_url = static_map_url (pystr lat) (pystr lon) (str_int zoom) api_key, req_params = []\<rparr> = Inr response"
  shows "written_files (fst (download_satellite_image pystr get open_wb file_write api_key lat lon zoom img_file_name
                              :: ('img, unit) io))
           = (if status_code response = 200 \<and> open_wb img_file_name = Inr ()
                 \<and> file_write img_file_name (content response) = Inr ()
              then [(img_file_name, content response)] else [])
       \<and> opened_files (fst (download_satellite_image pystr get open_wb file_write api_key lat lon zoom img_file_name
                              :: ('img, unit) io))
           = (if status_code response = 200 \<and> open_wb img_file_name = Inr () then [img_file_name] else [])
       \<and> snd (download_satellite_image pystr get open_wb file_write api_key lat lon zoom img_file_name
                 :: ('img, unit) io)
           = (if status_code response = 200
              then (case open_wb img_file_name of
                      Inl e \<Rightarrow> Inl e
                    | Inr opened \<Rightarrow> file_write img_file_name (content response))
              else Inr ())
       \<and> (status_code response \<noteq> 200 \<longrightarrow>
            Print ''Failed to download the image. Check your API key and quota.''
              \<in> set (fst (download_satellite_image pystr get open_wb file_write api_key lat lon zoom img_file_name
                             :: ('img, unit) io)))
       \<and> snd (download_image_as_bytes pystr get api_key lat lon zoom :: ('img, bytes option) io)
           = Inr (if status_code response = 200 then Some (content response) else None)
       \<and> opened_files (fst (download_image_as_bytes pystr get api_key lat lon zoom :: ('img, bytes option) io)) = []
       \<and> written_files (fst (download_image_as_bytes pystr get api_key lat lon zoom :: ('img, bytes option) io)) = []"
  using assms unfolding download_satellite_image_def download_image_as_bytes_def static_map_url_def Let_def
  by (simp split: sum.splits)

theorem download_iff_200_witness:
  "written_files (fst (download_satellite_image pystr_sample (world png_1x1 geocode_ok (JObj []) 200)
       open_wb_sample file_write_sample ''k''
       (JFloat 0x40468147AE147AE1) (JFloat 0xC051C0A3D70A3D71) 14 ''camp.png'' :: (unit, unit) io))
     = [(''camp.png'', png_1x1)]
   \<and> snd (download_satellite_image pystr_sample (world png_1x1 geocode_ok (JObj []) 200)
       open_wb_sample file_write_sample ''k''
       (JFloat 0x40468147AE147AE1) (JFloat 0xC051C0A3D70A3D71) 14 ''camp.png'' :: (unit, unit) io)
     = Inr ()
   \<and> snd (download_image_as_bytes pystr_sample (world png_1x1 geocode_ok (JObj []) 200) ''k''
       (JFloat 0x40468147AE147AE1) (JFloat 0xC051C0A3D70A3D71) 14 :: (unit, bytes option) io)
     = Inr (Some png_1x1)
   \<and> written_files (fst (download_satellite_image pystr_sample (world png_1x1 geocode_ok (JObj []) 404)
       open_wb_sample file_write_sample ''k''
       (JFloat 0x40468147AE147AE1) (JFloat 0xC051C0A3D70A3D71) 14 ''camp.png'' :: (unit, unit) io))
     = []
   \<and> opened_files (fst (download_satellite_image pystr_sample (world png_1x1 geocode_ok (JObj []) 404)
       open_wb_sample file_write_sample ''k''
       (JFloat 0x40468147AE147AE1) (JFloat 0xC051C0A3D70A3D71) 14 ''camp.png'' :: (unit, unit) io))
     = []
   \<and> snd (download_image_as_bytes pystr_sample (world png_1x1 geocode_ok (JObj []) 404) ''k''
       (JFloat 0x40468147AE147AE1) (JFloat 0xC051C0A3D70A3D71) 14 :: (unit, bytes option) io)
     = Inr None"
  using download_iff_200 [where get = "world png_1x1 geocode_ok (JObj []) 200" and pystr = pystr_sample
          and open_wb = open_wb_sample and file_write = file_write_sample
          and api_key = "''k''" and lat = "JFloat 0x40468147AE147AE1" and lon = "JFloat 0xC051C0A3D70A3D71"
          and zoom = 14 and img_file_name = "''camp.png''" and ?'img = unit
          and response = "\<lparr>status_code = 200, content = png_1x1, json_body = Inl JSONDecodeError\<rparr>"]
        download_iff_200 [where get = "world png_1x1 geocode_ok (JObj []) 404" and pystr = pystr_sample
          and open_wb = open_wb_sample and file_write = file_write_sample
          and api_key = "''k''" and lat = "JFloat 0x40468147AE147AE1" and lon = "JFloat 0xC051C0A3D70A3D71"
          and zoom = 14 and img_file_name = "''camp.png''" and ?'img = unit
          and response = "\<lparr>status_code = 404, content = png_1x1, json_body = Inl JSONDecodeError\<rparr>"]
  by (simp add: world_def static_map_url_def open_wb_sample_def file_write_sample_def)

text \<open>
  Status 200 alone does not give a written file: with status 200 and the empty file
  name, \<open>open\<close> raises, the error leaves the function, and nothing is opened or written.
\<close>

theorem download_iff_200_counterexample:
  "world png_1x1 geocode_ok (JObj []) 200
       \<lparr>req_url = ''https://maps.googleapis.com/maps/api/staticmap?center=45.01,-71.01&zoom=14&size=600x600&maptype=satellite&key=k'',
        req_params = []\<rparr>
     = Inr \<lparr>status_code = 200, content = png_1x1, json_body = Inl JSONDecodeError\<rparr>
   \<and> (download_satellite_image pystr_sample (world png_1x1 geocode_ok (JObj []) 200)
         open_wb_sample file_write_sample ''k''
         (JFloat 0x40468147AE147AE1) (JFloat 0xC051C0A3D70A3D71) 14 [] :: (unit, unit) io)
     = ([HttpGet \<lparr>req_url = ''https://maps.googleapis.com/maps/api/staticmap?center=45.01,-71.01&zoom=14&size=600x600&maptype=satellite&key=k'',
                   req_params = []\<rparr>],
        Inl OSError)
   \<and> written_files (fst (download_satellite_image pystr_sample (world png_1x1 geocode_ok (JObj []) 200)
         open_wb_sample file_write_sample ''k''
         (JFloat 0x40468147AE147AE1) (JFloat 0xC051C0A3D70A3D71) 14 [] :: (unit, unit) io))
     = []"
  by (simp add: download_satellite_image_def world_def open_wb_sample_def pystr_sample_def str_int_14)

subsection \<open>The page\<close>

text \<open>
  C7. When the API key or the address is empty, a run shows the four widgets and the prompt
  and stops: it sends no request at all, so neither geocoding nor place search nor
  imagery is invoked.
\<close>

theorem controller_missing_input:
  assumes "ui_api_key u = [] \<or> ui_address u = []"
  shows "controller pystr get image_open u
           = (header @ [Write ''Please enter a valid API key and address.''], Inr ())
       \<and> requested_urls (fst (controller pystr get image_open u)) = []"
  using assms unfolding controller_def header_def by (auto simp: emit_def)

theorem controller_missing_input_witness:
  "controller pystr_sample (world png_1x1 geocode_ok (JObj [(''results'', JArr [pine_camp])]) 200) image_open_sample (sample_ui ''k'' [] 14 0)
     = ([Title ''CampRecon'', TextInput ''Enter your Google API Key'' [],
         TextInput ''Enter an address or location'' [], NumberInput ''Zoom Level'' 0 21 12 1,
         Write ''Please enter a valid API key and address.''], Inr ())"
  using controller_missing_input [of "sample_ui ''k'' [] 14 0" pystr_sample
          "world png_1x1 geocode_ok (JObj [(''results'', JArr [pine_camp])]) 200" image_open_sample]
  by (simp add: sample_ui_def header_def)

text \<open>
  C5. When every answer of the text search carries an empty \<open>"results"\<close> array,
  \<open>find_places\<close> returns the empty list (no \<open>None\<close>, no exception), and a run that got
  as far as the search writes "No places found." and stops: its only requests are the
  geocoding one and the search one.
\<close>

theorem empty_results_no_places:
  fixes image_open :: "bytes \<Rightarrow> error + 'img"
  assumes "\<And>req. req_url req = ''https://maps.googleapis.com/maps/api/place/textsearch/json'' \<Longrightarrow>
             \<exists>response kvs. get req = Inr response \<and> json_body response = Inr (JObj kvs)
               \<and> map_of kvs ''results'' = Some (JArr [])"
  shows "(find_places get api_key query location radius :: ('img, place list) io)
           = ([HttpGet (textsearch_request api_key query location radius)], Inr [])
       \<and> (ui_address u \<noteq> [] \<and> ui_api_key u \<noteq> []
            \<and> snd (get_lat_long pystr get (ui_api_key u) (ui_address u) :: ('img, json \<times> json) io)
                  = Inr (latitude, longitude)
            \<and> latitude \<noteq> JNull \<and> longitude \<noteq> JNull \<and> ui_query u \<noteq> [] \<longrightarrow>
            controller pystr get image_open u
              = (header @ fst (get_lat_long pystr get (ui_api_key u) (ui_address u) :: ('img, json \<times> json) io)
                 @ [Write (''Latitude: '' @ pystr latitude @ '', Longitude: '' @ pystr longitude),
                    TextInput ''Enter search query for nearby places'' ''camp sites'',
                    HttpGet (textsearch_request (ui_api_key u) (ui_query u) (pystr latitude @ '','' @ pystr longitude) 5000),
                    Write ''No places found.''],
                 Inr ())
            \<and> requested_urls (fst (controller pystr get image_open u))
                = [''https://maps.googleapis.com/maps/api/geocode/json'',
                   ''https://maps.googleapis.com/maps/api/place/textsearch/json''])"
proof -
  have search: "(find_places get k q l r :: ('img, place list) io) = ([HttpGet (textsearch_request k q l r)], Inr [])"
    for k q l r
  proof -
    from assms [of "textsearch_request k q l r"] obtain response kvs
      where "get (textsearch_request k q l r) = Inr response" and "json_body response = Inr (JObj kvs)"
        and "map_of kvs ''results'' = Some (JArr [])"
      by (auto simp: textsearch_request_def)
    then show ?thesis
      unfolding find_places_def textsearch_request_def Let_def by simp
  qed
  have ctl: "controller pystr get image_open u
              = (header @ fst (get_lat_long pystr get (ui_api_key u) (ui_address u) :: ('img, json \<times> json) io)
                 @ [Write (''Latitude: '' @ pystr latitude @ '', Longitude: '' @ pystr longitude),
                    TextInput ''Enter search query for nearby places'' ''camp sites'',
                    HttpGet (textsearch_request (ui_api_key u) (ui_query u) (pystr latitude @ '','' @ pystr longitude) 5000),
                    Write ''No places found.''],
                 Inr ())"
    if h: "ui_address u \<noteq> []" "ui_api_key u \<noteq> []"
      "snd (get_lat_long pystr get (ui_api_key u) (ui_address u) :: ('img, json \<times> json) io) = Inr (latitude, longitude)"
      "latitude \<noteq> JNull" "longitude \<noteq> JNull" "ui_query u \<noteq> []"
  proof -
    have "snd (find_places get (ui_api_key u) (ui_query u) (pystr latitude @ '','' @ pystr longitude) 5000
           :: ('img, place list) io) = Inr []"
      by (simp add: search)
    from controller_located [OF h this, of image_open] show ?thesis
      by (simp add: emit_def)
  qed
  have urls: "requested_urls (fst (controller pystr get image_open u))
                = [''https://maps.googleapis.com/maps/api/geocode/json'',
                   ''https://maps.googleapis.com/maps/api/place/textsearch/json'']"
    if h: "ui_address u \<noteq> []" "ui_api_key u \<noteq> []"
      "snd (get_lat_long pystr get (ui_api_key u) (ui_address u) :: ('img, json \<times> json) io) = Inr (latitude, longitude)"
      "latitude \<noteq> JNull" "longitude \<noteq> JNull" "ui_query u \<noteq> []"
    by (simp add: ctl [OF h] get_lat_long_urls header_def textsearch_request_def)
  from search ctl urls show ?thesis by blast
qed

theorem empty_results_no_places_witness:
  "(find_places (world png_1x1 geocode_ok (JObj [(''results'', JArr [])]) 200) ''k'' ''camp sites'' ''45.0,-71.0'' 5000
      :: (picture, place list) io)
     = ([HttpGet (textsearch_request ''k'' ''camp sites'' ''45.0,-71.0'' 5000)], Inr [])
   \<and> controller pystr_sample (world png_1x1 geocode_ok (JObj [(''results'', JArr [])]) 200)
       image_open_sample (sample_ui ''k'' ''1 Camp Rd'' 14 0)
     = ([Title ''CampRecon'', TextInput ''Enter your Google API Key'' [],
         TextInput ''Enter an address or location'' [], NumberInput ''Zoom Level'' 0 21 12 1,
         HttpGet (geocode_request ''k'' ''1 Camp Rd''),
         Write ''Latitude: 45.0, Longitude: -71.0'',
         TextInput ''Enter search query for nearby places'' ''camp sites'',
         HttpGet (textsearch_request ''k'' ''camp sites'' ''45.0,-71.0'' 5000),
         Write ''No places found.''], Inr ())"
proof -
  have empty: "\<exists>response kvs. world png_1x1 geocode_ok (JObj [(''results'', JArr [])]) 200 req = Inr response
                 \<and> json_body response = Inr (JObj kvs) \<and> map_of kvs ''results'' = Some (JArr [])"
    if "req_url req = ''https://maps.googleapis.com/maps/api/place/textsearch/json''" for req
    using that by (simp add: world_def)
  from empty_results_no_places [where get = "world png_1x1 geocode_ok (JObj [(''results'', JArr [])]) 200",
         OF empty, where u = "sample_ui ''k'' ''1 Camp Rd'' 14 0" and pystr = pystr_sample
          and latitude = "JFloat 0x4046800000000000" and longitude = "JFloat 0xC051C00000000000"
          and image_open = image_open_sample
          and api_key = "''k''" and query = "''camp sites''" and location = "''45.0,-71.0''" and radius = 5000]
       sample_geocode [of "JObj [(''results'', JArr [])]" 200, where ?'img = picture]
  show ?thesis
    by (simp add: sample_ui_def header_def pystr_sample_def)
qed

text \<open>
  C6 (amended). When the selector answers with the label of the place at position \<open>j\<close>,
  a run requests the static map in memory, centred on the coordinates of the first place
  that carries this label (position \<open>first_same_label\<close>, which is \<open>j\<close> itself unless an
  earlier place has the same label), at the zoom level of the page (the number field with
  bounds 0 and 21 and default 12), not at the zoom 12 stored in the place. If the answer
  has status 200, its body goes to \<open>Image.open\<close>: the decoded image is shown, and where the
  body does not decode the decoder's exception ends the run and nothing is shown.
\<close>

theorem controller_fetches_selected:
  fixes image_open :: "bytes \<Rightarrow> error + 'img"
  assumes "ui_address u \<noteq> []" and "ui_api_key u \<noteq> []"
    and "snd (get_lat_long pystr get (ui_api_key u) (ui_address u) :: ('img, json \<times> json) io) = Inr (latitude, longitude)"
    and "latitude \<noteq> JNull" and "longitude \<noteq> JNull" and "ui_query u \<noteq> []"
    and "snd (find_places get (ui_api_key u) (ui_query u) (pystr latitude @ '','' @ pystr longitude) 5000
           :: ('img, place list) io) = Inr places"
    and "j < length places"
    and "ui_selectbox u (map (place_option pystr) places) = Some (place_option pystr (places ! j))"
  shows "(let i = first_same_label pystr places j;
              shown = header @ fst (get_lat_long pystr get (ui_api_key u) (ui_address u) :: ('img, json \<times> json) io)
                  @ [Write (''Latitude: '' @ pystr latitude @ '', Longitude: '' @ pystr longitude),
                     TextInput ''Enter search query for nearby places'' ''camp sites'',
                     HttpGet (textsearch_request (ui_api_key u) (ui_query u) (pystr latitude @ '','' @ pystr longitude) 5000),
                     SelectBox ''Select a place to view'' (map (place_option pystr) places),
                     HttpGet (static_map_request pystr (ui_api_key u) (places ! i) (ui_zoom u))]
          in i \<le> j
           \<and> place_option pystr (places ! i) = place_option pystr (places ! j)
           \<and> (\<forall>k<i. place_option pystr (places ! k) \<noteq> place_option pystr (places ! j))
           \<and> ((\<forall>k<j. place_option pystr (places ! k) \<noteq> place_option pystr (places ! j)) \<longrightarrow> i = j)
           \<and> requested_urls (fst (controller pystr get image_open u))
               = [''https://maps.googleapis.com/maps/api/geocode/json'',
                  ''https://maps.googleapis.com/maps/api/place/textsearch/json'',
                  static_map_url (pystr (place_latitude (places ! i))) (pystr (place_longitude (places ! i)))
                    (str_int (ui_zoom u)) (ui_api_key u)]
           \<and> place_zoom (places ! i) = 12
           \<and> (\<forall>response.
                 get (static_map_request pystr (ui_api_key u) (places ! i) (ui_zoom u)) = Inr response
                 \<and> status_code response = 200 \<longrightarrow>
                 controller pystr get image_open u
                   = (case image_open (content response) of
                        Inr img \<Rightarrow> (shown @ [ShowImage img ''Satellite Image''], Inr ())
                      | Inl e \<Rightarrow> (shown, Inl e))))"
proof -
  define i where "i = first_same_label pystr places j"
  note fsl = first_same_label_index [OF assms(8), of pystr, folded i_def]
  have ne: "places \<noteq> []" using assms(8) by auto
  have il: "i < length places" using fsl(2) assms(8) by simp
  note ctl = controller_located [OF assms(1-7), of image_open]
  have first: "(\<forall>k<j. place_option pystr (places ! k) \<noteq> place_option pystr (places ! j)) \<longrightarrow> i = j"
  proof
    assume a: "\<forall>k<j. place_option pystr (places ! k) \<noteq> place_option pystr (places ! j)"
    show "i = j"
    proof (rule ccontr)
      assume "i \<noteq> j"
      with fsl(2) have "i < j" by simp
      with a fsl(3) show False by blast
    qed
  qed
  have urls: "requested_urls (fst (controller pystr get image_open u))
               = [''https://maps.googleapis.com/maps/api/geocode/json'',
                  ''https://maps.googleapis.com/maps/api/place/textsearch/json'',
                  static_map_url (pystr (place_latitude (places ! i))) (pystr (place_longitude (places ! i)))
                    (str_int (ui_zoom u)) (ui_api_key u)]"
    using view_places_urls [OF assms(9) fsl(1), of get image_open] ne
    by (simp add: ctl get_lat_long_urls header_def textsearch_request_def static_map_request_def)
  have zoom: "place_zoom (places ! i) = 12"
    using find_places_zoom [OF assms(7)] il by simp
  have shown: "controller pystr get image_open u
                 = (case image_open (content response) of
                      Inr img \<Rightarrow>
                        ((header @ fst (get_lat_long pystr get (ui_api_key u) (ui_address u) :: ('img, json \<times> json) io)
                          @ [Write (''Latitude: '' @ pystr latitude @ '', Longitude: '' @ pystr longitude),
                             TextInput ''Enter search query for nearby places'' ''camp sites'',
                             HttpGet (textsearch_request (ui_api_key u) (ui_query u) (pystr latitude @ '','' @ pystr longitude) 5000),
                             SelectBox ''Select a place to view'' (map (place_option pystr) places),
                             HttpGet (static_map_request pystr (ui_api_key u) (places ! i) (ui_zoom u))])
                         @ [ShowImage img ''Satellite Image''], Inr ())
                    | Inl e \<Rightarrow>
                        (header @ fst (get_lat_long pystr get (ui_api_key u) (ui_address u) :: ('img, json \<times> json) io)
                          @ [Write (''Latitude: '' @ pystr latitude @ '', Longitude: '' @ pystr longitude),
                             TextInput ''Enter search query for nearby places'' ''camp sites'',
                             HttpGet (textsearch_request (ui_api_key u) (ui_query u) (pystr latitude @ '','' @ pystr longitude) 5000),
                             SelectBox ''Select a place to view'' (map (place_option pystr) places),
                             HttpGet (static_map_request pystr (ui_api_key u) (places ! i) (ui_zoom u))],
                         Inl e))"
    if "get (static_map_request pystr (ui_api_key u) (places ! i) (ui_zoom u)) = Inr response"
      and "status_code response = 200"
    for response
    using view_places_fetched [where get = get and image_open = image_open, OF assms(9) fsl(1) that] ne
    by (simp add: ctl emit_def split: sum.splits)
  from fsl(2,3,4) first urls zoom shown show ?thesis
    unfolding Let_def i_def [symmetric] by blast
qed

theorem controller_fetches_selected_witness:
  "controller pystr_sample (world png_1x1 geocode_ok (JObj [(''results'', JArr [pine_camp, oak_camp])]) 200)
       image_open_sample (sample_ui ''k'' ''1 Camp Rd'' 17 1)
     = ([Title ''CampRecon'', TextInput ''Enter your Google API Key'' [],
         TextInput ''Enter an address or location'' [], NumberInput ''Zoom Level'' 0 21 12 1,
         HttpGet (geocode_request ''k'' ''1 Camp Rd''),
         Write ''Latitude: 45.0, Longitude: -71.0'',
         TextInput ''Enter search query for nearby places'' ''camp sites'',
         HttpGet (textsearch_request ''k'' ''camp sites'' ''45.0,-71.0'' 5000),
         SelectBox ''Select a place to view'' [''Pine Camp (45.01, -71.01)'', ''Oak Camp (45.0, -71.0)''],
         HttpGet \<lparr>req_url = ''https://maps.googleapis.com/maps/api/staticmap?center=45.0,-71.0&zoom=17&size=600x600&maptype=satellite&key=k'',
                  req_params = []\<rparr>,
         ShowImage (Picture 1 1) ''Satellite Image''],
        Inr ())"
  using controller_fetches_selected [where u = "sample_ui ''k'' ''1 Camp Rd'' 17 1" and pystr = pystr_sample
          and get = "world png_1x1 geocode_ok (JObj [(''results'', JArr [pine_camp, oak_camp])]) 200"
          and latitude = "JFloat 0x4046800000000000" and longitude = "JFloat 0xC051C00000000000"
          and places = "[pine_place, oak_place]" and j = 1 and image_open = image_open_sample]
        sample_geocode_body [of png_1x1 "JObj [(''results'', JArr [pine_camp, oak_camp])]" 200, where ?'img = picture]
        sample_search_oak [of png_1x1 geocode_ok 200, where ?'img = picture]
  by (simp add: sample_ui_def place_option_def header_def pystr_sample_def pine_place_def oak_place_def
        str_int_samples static_map_request_def static_map_url_def world_def image_open_sample_def
        first_same_label_def Let_def)

text \<open>
  Neither the selected place's own coordinates nor a shown image is guaranteed, as two
  runs show. With two places whose labels are both
  \<open>Camp (2, 3) (4, 5)\<close> and the second one selected, the map requested is centred on
  the first one's coordinates, not on the selected place's \<open>4,5\<close>. And with status 200
  and the body \<open>b"PNGDATA"\<close>, \<open>Image.open\<close> raises: the run ends with that exception and
  shows no image.
\<close>

theorem controller_fetches_selected_counterexample:
  "requested_urls (fst (controller pystr_sample
       (world png_1x1 geocode_ok (JObj [(''results'', JArr [camp_first, camp_second])]) 200)
       image_open_sample (sample_ui ''k'' ''1 Camp Rd'' 14 1)))
     = [''https://maps.googleapis.com/maps/api/geocode/json'',
        ''https://maps.googleapis.com/maps/api/place/textsearch/json'',
        ''https://maps.googleapis.com/maps/api/staticmap?center=2,3) (4, 5&zoom=14&size=600x600&maptype=satellite&key=k'']
   \<and> static_map_url (pystr_sample (JInt 4)) (pystr_sample (JInt 5)) (str_int 14) ''k''
     = ''https://maps.googleapis.com/maps/api/staticmap?center=4,5&zoom=14&size=600x600&maptype=satellite&key=k''
   \<and> requested_urls (fst (controller pystr_sample
       (world png_1x1 geocode_ok (JObj [(''results'', JArr [camp_first, camp_second])]) 200)
       image_open_sample (sample_ui ''k'' ''1 Camp Rd'' 14 1)))
     \<noteq> [''https://maps.googleapis.com/maps/api/geocode/json'',
         ''https://maps.googleapis.com/maps/api/place/textsearch/json'',
         static_map_url (pystr_sample (JInt 4)) (pystr_sample (JInt 5)) (str_int 14) ''k'']
   \<and> controller pystr_sample (world pngdata geocode_ok (JObj [(''results'', JArr [pine_camp])]) 200)
       image_open_sample (sample_ui ''k'' ''1 Camp Rd'' 14 0)
     = ([Title ''CampRecon'', TextInput ''Enter your Google API Key'' [],
         TextInput ''Enter an address or location'' [], NumberInput ''Zoom Level'' 0 21 12 1,
         HttpGet (geocode_request ''k'' ''1 Camp Rd''),
         Write ''Latitude: 45.0, Longitude: -71.0'',
         TextInput ''Enter search query for nearby places'' ''camp sites'',
         HttpGet (textsearch_request ''k'' ''camp sites'' ''45.0,-71.0'' 5000),
         SelectBox ''Select a place to view'' [''Pine Camp (45.01, -71.01)''],
         HttpGet \<lparr>req_url = ''https://maps.googleapis.com/maps/api/staticmap?center=45.01,-71.01&zoom=14&size=600x600&maptype=satellite&key=k'',
                  req_params = []\<rparr>],
        Inl UnidentifiedImageError)"
proof -
  have dup: "requested_urls (fst (controller pystr_sample
       (world png_1x1 geocode_ok (JObj [(''results'', JArr [camp_first, camp_second])]) 200)
       image_open_sample (sample_ui ''k'' ''1 Camp Rd'' 14 1)))
     = [''https://maps.googleapis.com/maps/api/geocode/json'',
        ''https://maps.googleapis.com/maps/api/place/textsearch/json'',
        ''https://maps.googleapis.com/maps/api/staticmap?center=2,3) (4, 5&zoom=14&size=600x600&maptype=satellite&key=k'']"
    using sample_geocode_body [of png_1x1 "JObj [(''results'', JArr [camp_first, camp_second])]" 200, where ?'img = picture]
          sample_search_camps [of png_1x1 geocode_ok 200, where ?'img = picture]
    by (simp add: controller_def view_places_def download_image_as_bytes_def emit_def Let_def sample_ui_def
          place_option_def pystr_sample_def str_int_14 str_int_samples world_def image_open_sample_def
          png_1x1_def geocode_request_def textsearch_request_def)
  have url: "static_map_url (pystr_sample (JInt 4)) (pystr_sample (JInt 5)) (str_int 14) ''k''
     = ''https://maps.googleapis.com/maps/api/staticmap?center=4,5&zoom=14&size=600x600&maptype=satellite&key=k''"
    by (simp add: static_map_url_def pystr_sample_def str_int_14 str_int_samples)
  have png: "controller pystr_sample (world pngdata geocode_ok (JObj [(''results'', JArr [pine_camp])]) 200)
       image_open_sample (sample_ui ''k'' ''1 Camp Rd'' 14 0)
     = ([Title ''CampRecon'', TextInput ''Enter your Google API Key'' [],
         TextInput ''Enter an address or location'' [], NumberInput ''Zoom Level'' 0 21 12 1,
         HttpGet (geocode_request ''k'' ''1 Camp Rd''),
         Write ''Latitude: 45.0, Longitude: -71.0'',
         TextInput ''Enter search query for nearby places'' ''camp sites'',
         HttpGet (textsearch_request ''k'' ''camp sites'' ''45.0,-71.0'' 5000),
         SelectBox ''Select a place to view'' [''Pine Camp (45.01, -71.01)''],
         HttpGet \<lparr>req_url = ''https://maps.googleapis.com/maps/api/staticmap?center=45.01,-71.01&zoom=14&size=600x600&maptype=satellite&key=k'',
                  req_params = []\<rparr>],
        Inl UnidentifiedImageError)"
    using sample_geocode_body [of pngdata "JObj [(''results'', JArr [pine_camp])]" 200, where ?'img = picture]
          sample_search_body [of pngdata geocode_ok 200, where ?'img = picture]
    by (simp add: controller_def view_places_def download_image_as_bytes_def emit_def Let_def sample_ui_def
          place_option_def pystr_sample_def str_int_14 pine_place_def world_def image_open_sample_def
          png_1x1_def pngdata_def)
  from dup url png show ?thesis by simp
qed

text \<open>
  C10. When the selector answers with the label of the place at position \<open>j\<close> and \<open>i\<close> is the
  first position with that label, \<open>place_options.index\<close> yields \<open>i\<close> and the static map is
  requested for the coordinates of the place at \<open>i\<close>, whichever duplicate \<open>j\<close> was selected.
\<close>

theorem controller_duplicate_labels:
  fixes image_open :: "bytes \<Rightarrow> error + 'img"
  assumes "ui_address u \<noteq> []" and "ui_api_key u \<noteq> []"
    and "snd (get_lat_long pystr get (ui_api_key u) (ui_address u) :: ('img, json \<times> json) io) = Inr (latitude, longitude)"
    and "latitude \<noteq> JNull" and "longitude \<noteq> JNull" and "ui_query u \<noteq> []"
    and "snd (find_places get (ui_api_key u) (ui_query u) (pystr latitude @ '','' @ pystr longitude) 5000
           :: ('img, place list) io) = Inr places"
    and "j < length places"
    and "ui_selectbox u (map (place_option pystr) places) = Some (place_option pystr (places ! j))"
    and "i \<le> j"
    and "place_option pystr (places ! i) = place_option pystr (places ! j)"
    and "\<forall>k<i. place_option pystr (places ! k) \<noteq> place_option pystr (places ! j)"
  shows "index_of (map (place_option pystr) places) (place_option pystr (places ! j)) = Some i
       \<and> requested_urls (fst (controller pystr get image_open u))
           = [''https://maps.googleapis.com/maps/api/geocode/json'',
              ''https://maps.googleapis.com/maps/api/place/textsearch/json'',
              static_map_url (pystr (place_latitude (places ! i))) (pystr (place_longitude (places ! i)))
                (str_int (ui_zoom u)) (ui_api_key u)]"
proof -
  let ?opts = "map (place_option pystr) places"
  have ne: "places \<noteq> []" using assms(8) by auto
  have il: "i < length ?opts" using assms(8,10) by simp
  have idx: "index_of ?opts (place_option pystr (places ! j)) = Some i"
  proof (rule index_of_first [OF il])
    show "?opts ! i = place_option pystr (places ! j)"
      using il assms(11) by simp
    show "\<forall>k<i. ?opts ! k \<noteq> place_option pystr (places ! j)"
      using il assms(12) by simp
  qed
  note ctl = controller_located [OF assms(1-7), of image_open]
  have "requested_urls (fst (controller pystr get image_open u))
           = [''https://maps.googleapis.com/maps/api/geocode/json'',
              ''https://maps.googleapis.com/maps/api/place/textsearch/json'',
              static_map_url (pystr (place_latitude (places ! i))) (pystr (place_longitude (places ! i)))
                (str_int (ui_zoom u)) (ui_api_key u)]"
    using view_places_urls [OF assms(9) idx, of get image_open] ne
    by (simp add: ctl get_lat_long_urls header_def textsearch_request_def static_map_request_def)
  with idx show ?thesis by simp
qed

theorem controller_duplicate_labels_witness:
  "index_of (map (place_option pystr_sample) [pine_place, pine_place_text]) (place_option pystr_sample pine_place_text) = Some 0
   \<and> requested_urls (fst (controller pystr_sample
          (world png_1x1 geocode_ok (JObj [(''results'', JArr [pine_camp, pine_camp_text])]) 200)
          image_open_sample (sample_ui ''k'' ''1 Camp Rd'' 14 1)))
       = [''https://maps.googleapis.com/maps/api/geocode/json'',
          ''https://maps.googleapis.com/maps/api/place/textsearch/json'',
          static_map_url (pystr_sample (JFloat 0x40468147AE147AE1)) (pystr_sample (JFloat 0xC051C0A3D70A3D71)) ''14'' ''k'']"
  using controller_duplicate_labels [where u = "sample_ui ''k'' ''1 Camp Rd'' 14 1" and pystr = pystr_sample
          and get = "world png_1x1 geocode_ok (JObj [(''results'', JArr [pine_camp, pine_camp_text])]) 200"
          and latitude = "JFloat 0x4046800000000000" and longitude = "JFloat 0xC051C00000000000"
          and places = "[pine_place, pine_place_text]" and j = 1 and i = 0
          and image_open = image_open_sample]
        sample_geocode [of "JObj [(''results'', JArr [pine_camp, pine_camp_text])]" 200, where ?'img = picture]
        sample_search_two [of geocode_ok 200, where ?'img = picture]
  by (simp add: sample_ui_def place_option_def pystr_sample_def str_int_14 pine_place_def pine_place_text_def)

end
